theory Spec2Isabelle
  imports Complex_Main "HOL-Library.Sublist"
begin

section \<open>Strings: \<open>utils/data_helper.py\<close>\<close>

text \<open>
  Python's \<open>str\<close> is modelled as \<^typ>\<open>string\<close>. The source of \<open>escape_single_quotes\<close> is
  \<^verbatim>\<open>return re.sub(r"(?<=\w)'(?=\w)", "''", text)\<close>.
  The character class \<open>\w\<close> is a table of the \<open>re\<close> module and not part of the repository, so
  it is a parameter \<open>w\<close> of the model. \<open>re.sub\<close> scans the text from left to right; the pattern
  consumes exactly one character (the quote), the look-behind inspects the character before
  it and the look-ahead the character after it, both in the original text.
  \<open>escape_from w prev cs\<close> is that scan at the suffix \<open>cs\<close>, with \<open>prev\<close> the character just
  before it (\<open>None\<close> at the start of the text).
\<close>

definition quote :: char where
  "quote = CHR 0x27"

fun escape_from :: "(char \<Rightarrow> bool) \<Rightarrow> char option \<Rightarrow> string \<Rightarrow> string" where
  "escape_from w prev [] = []"
| "escape_from w prev (c # cs) =
     (if c = quote
         \<and> (case prev of None \<Rightarrow> False | Some p \<Rightarrow> w p)
         \<and> (case cs of [] \<Rightarrow> False | d # ds \<Rightarrow> w d)
      then [quote, quote] else [c]) @ escape_from w (Some c) cs"

definition escape_single_quotes :: "(char \<Rightarrow> bool) \<Rightarrow> string \<Rightarrow> string" where
  "escape_single_quotes w s = escape_from w None s"

text \<open>
  The specification's words, position by position: a quote is escaped when it stands between
  two word characters; every other character is copied.
\<close>

definition quote_between_words :: "(char \<Rightarrow> bool) \<Rightarrow> string \<Rightarrow> nat \<Rightarrow> bool" where
  "quote_between_words w t i =
     (t ! i = quote \<and> 0 < i \<and> w (t ! (i - 1)) \<and> Suc i < length t \<and> w (t ! Suc i))"

definition escaped_at :: "(char \<Rightarrow> bool) \<Rightarrow> string \<Rightarrow> nat \<Rightarrow> string" where
  "escaped_at w t i = (if quote_between_words w t i then [quote, quote] else [t ! i])"

definition escape_spec :: "(char \<Rightarrow> bool) \<Rightarrow> string \<Rightarrow> string" where
  "escape_spec w t = concat (map (escaped_at w t) [0..<length t])"

text \<open>The ASCII part of \<open>\w\<close>, used where a concrete class is needed.\<close>

definition ascii_word :: "char \<Rightarrow> bool" where
  "ascii_word c =
     (let n = (of_char c :: nat) in
        (48 \<le> n \<and> n \<le> 57) \<or> (65 \<le> n \<and> n \<le> 90) \<or> (97 \<le> n \<and> n \<le> 122) \<or> n = 95)"

section \<open>Python string methods used by the connector\<close>

text \<open>
  \<open>str.lower\<close>, \<open>str.strip\<close>, \<open>str.split\<close> and the \<open>in\<close> test, on the 8-bit characters of
  \<^typ>\<open>string\<close>. The literals the source compares with are ASCII.
\<close>

definition char_lower :: "char \<Rightarrow> char" where
  "char_lower c =
     (case map_of (zip ''ABCDEFGHIJKLMNOPQRSTUVWXYZ'' ''abcdefghijklmnopqrstuvwxyz'') c of
        None \<Rightarrow> c
      | Some d \<Rightarrow> d)"

definition str_lower :: "string \<Rightarrow> string" where
  "str_lower s = map char_lower s"

definition isspace :: "char \<Rightarrow> bool" where
  "isspace c = ((of_char c :: nat) \<in> {9, 10, 11, 12, 13, 28, 29, 30, 31, 32, 133, 160})"

definition str_strip :: "string \<Rightarrow> string" where
  "str_strip s = rev (dropWhile isspace (rev (dropWhile isspace s)))"

text \<open>\<open>s.split()\<close>: the maximal runs of characters that are not whitespace.\<close>

fun split_ws :: "string \<Rightarrow> string \<Rightarrow> string list" where
  "split_ws cur [] = (if cur = [] then [] else [cur])"
| "split_ws cur (c # cs) =
     (if isspace c then (if cur = [] then [] else [cur]) @ split_ws [] cs
      else split_ws (cur @ [c]) cs)"

definition str_split :: "string \<Rightarrow> string list" where
  "str_split s = split_ws [] s"

text \<open>
  \<open>s.split(sep)\<close> for a non-empty separator: the pieces between the occurrences of \<open>sep\<close>,
  found from the left without overlap. The result always has at least one piece.
\<close>

fun split_sep :: "string \<Rightarrow> string \<Rightarrow> string \<Rightarrow> string list" where
  "split_sep sep cur [] = [cur]"
| "split_sep sep cur (c # cs) =
     (if sep \<noteq> [] \<and> prefix sep (c # cs)
      then cur # split_sep sep [] (drop (length sep - 1) cs)
      else split_sep sep (cur @ [c]) cs)"

definition str_split_on :: "string \<Rightarrow> string \<Rightarrow> string list" where
  "str_split_on sep s = split_sep sep [] s"

text \<open>\<open>sub in s\<close>.\<close>

fun str_in :: "string \<Rightarrow> string \<Rightarrow> bool" where
  "str_in sub [] = (sub = [])"
| "str_in sub (c # cs) = (prefix sub (c # cs) \<or> str_in sub cs)"

text \<open>\<open>sep.join(xs)\<close>.\<close>

fun str_join :: "string \<Rightarrow> string list \<Rightarrow> string" where
  "str_join sep [] = []"
| "str_join sep [x] = x"
| "str_join sep (x # y # ys) = x @ sep @ str_join sep (y # ys)"

text \<open>\<open>str(n)\<close> for an integer, as the f-strings of the source format it.\<close>

definition digit_char :: "nat \<Rightarrow> char" where
  "digit_char d = ''0123456789'' ! d"

fun str_nat :: "nat \<Rightarrow> string" where
  "str_nat n = (if n < 10 then [digit_char n] else str_nat (n div 10) @ [digit_char (n mod 10)])"

definition str_int :: "int \<Rightarrow> string" where
  "str_int i = (if i < 0 then CHR ''-'' # str_nat (nat (- i)) else str_nat (nat i))"


section \<open>The connector: \<open>db/db_connector.py\<close>\<close>

subsection \<open>Values, exceptions and the outside world\<close>

text \<open>
  Python values that travel as query parameters and as fields of result rows.
\<close>

datatype pyval = PNone | PInt int | PStr string | PTuple "pyval list"

text \<open>
  Exceptions. The first four are the classes the retry loop of \<open>run_query\<close> names:
  \<open>errors.lookup(DEADLOCK_DETECTED)\<close>, \<open>errors.lookup(IN_FAILED_SQL_TRANSACTION)\<close>,
  \<open>errors.lookup(CONNECTION_FAILURE)\<close> and \<open>OperationalError\<close> (here: an operational error
  that is none of the others). \<open>PyException msg\<close> is \<open>raise Exception(msg)\<close> of the source.
  \<open>OtherError\<close> is any other exception an external call raises.
\<close>

datatype exn =
    DeadlockDetected
  | InFailedSqlTransaction
  | ConnectionFailure
  | OperationalError
  | PyException string
  | IndexError
  | ValueError
  | AttributeError
  | OtherError string

text \<open>The \<open>except (...)\<close> clause of the retry loop catches exactly these.\<close>

definition is_transient :: "exn \<Rightarrow> bool" where
  "is_transient e = (e \<in> {DeadlockDetected, InFailedSqlTransaction, ConnectionFailure, OperationalError})"

text \<open>
  \<open>isinstance(e, (OperationalError, errors.lookup(CONNECTION_FAILURE)))\<close>. In psycopg2 the
  classes \<open>ConnectionFailure\<close> and \<open>DeadlockDetected\<close> derive from \<open>OperationalError\<close>, and
  \<open>InFailedSqlTransaction\<close> derives from \<open>InternalError\<close>.
\<close>

definition is_connection_issue :: "exn \<Rightarrow> bool" where
  "is_connection_issue e = (e \<in> {OperationalError, ConnectionFailure, DeadlockDetected})"

datatype fetch_mode = FetchOne | FetchAll

datatype result =
    RNone
  | RBool bool
  | ROne "string \<rightharpoonup> pyval"
  | RAll "(string \<rightharpoonup> pyval) list"

text \<open>What a cursor holds after a statement ran: \<open>cursor.description\<close> and the rows to fetch.\<close>

record cursor_result =
  description :: "string list option"
  rows :: "pyval list list"

datatype kube_config = Absent | Malformed | WellFormed

text \<open>
  The kinds of external calls whose answer the program does not determine. The connector
  counts its calls of each kind; the world answers the \<open>k\<close>-th call of a kind by the value of
  the oracle of that kind at \<open>k\<close>.
\<close>

datatype call =
    KRandint | KConnectEx | KKubeConfig | KLogin | KSpawn | KPoll | KTerminate
  | KConnect | KPool | KCloseAll | KClose | KExecute | KCommit

record world =
  w_word :: "char \<Rightarrow> bool"
  w_hash :: "string \<Rightarrow> int"
  w_randint :: "nat \<Rightarrow> nat"
  w_connect_ex :: "nat \<Rightarrow> int"
  w_kube_config :: "nat \<Rightarrow> kube_config"
  w_login :: "nat \<Rightarrow> int"
  w_poll :: "nat \<Rightarrow> int option"
  w_terminate :: "nat \<Rightarrow> exn option"
  w_connect :: "nat \<Rightarrow> exn option"
  w_pool :: "nat \<Rightarrow> exn option"
  w_closeall :: "nat \<Rightarrow> exn option"
  w_close :: "nat \<Rightarrow> exn option"
  w_execute :: "nat \<Rightarrow> exn + cursor_result"
  w_slow :: "nat \<Rightarrow> bool"
  w_commit :: "nat \<Rightarrow> exn option"

text \<open>
  The calls the connector makes, in order. Connections, pools and processes are named by
  the number of the call that created them. Creating and closing cursors, fetching rows,
  \<open>rollback\<close>, \<open>set_isolation_level\<close>, \<open>time.sleep\<close> and logging are taken to return normally.
\<close>

datatype event =
    ConnectEx int
  | Rename
  | OcLogin
  | Spawn nat int
  | Terminate nat
  | Sleep rat
  | Connect nat
  | NewPool nat
  | CloseAll nat
  | Close nat
  | SetIsolation nat "int option"
  | Execute nat string "pyval list option"
  | ExecuteMany nat string "pyval list"
  | Commit nat
  | Rollback nat

datatype level = INFO | WARNING | ERROR

record conn_obj =
  closed :: bool
  isolation_level :: "int option"

text \<open>
  The fields of \<open>DBConnector\<close>, the connection objects it can reach (\<open>conns\<close>), and what an
  observer sees of it: the external calls made (\<open>trace\<close>), the log records written (\<open>logs\<close>, with
  the constant part of each message) and the number of calls of each kind (\<open>calls\<close>).
\<close>

record connector =
  pod_name :: string
  namespace :: string
  local_port :: int
  pod_port :: int
  dbname :: string
  user :: string
  password :: string
  connection :: "nat option"
  connection_pool :: "nat option"
  port_forward_process :: "nat option"
  max_retries :: int
  retry_delay :: rat
  is_ci :: bool
  prepared_statements :: "string set"
  conns :: "nat \<Rightarrow> conn_obj"
  trace :: "event list"
  logs :: "(level \<times> string) list"
  calls :: "call \<Rightarrow> nat"

definition emit :: "event \<Rightarrow> connector \<Rightarrow> connector" where
  "emit e s = s\<lparr>trace := trace s @ [e]\<rparr>"

definition tick :: "call \<Rightarrow> connector \<Rightarrow> connector" where
  "tick k s = s\<lparr>calls := (calls s)(k := Suc (calls s k))\<rparr>"

definition logger :: "level \<Rightarrow> string \<Rightarrow> connector \<Rightarrow> connector" where
  "logger lvl msg s = s\<lparr>logs := logs s @ [(lvl, msg)]\<rparr>"

definition sleep :: "rat \<Rightarrow> connector \<Rightarrow> connector" where
  "sleep d s = emit (Sleep d) s"

text \<open>Sequencing of two steps, the second skipped when the first raises.\<close>

definition then_run ::
  "exn option \<times> connector \<Rightarrow> (connector \<Rightarrow> exn option \<times> connector) \<Rightarrow> exn option \<times> connector" where
  "then_run r f = (case r of (Some e, s) \<Rightarrow> (Some e, s) | (None, s) \<Rightarrow> f s)"

subsection \<open>Choosing a local port\<close>

text \<open>\<open>randint(a, b)\<close>: the \<open>k\<close>-th draw of the world, brought into the range \<open>a..b\<close>.\<close>

definition randint :: "world \<Rightarrow> int \<Rightarrow> int \<Rightarrow> nat \<Rightarrow> int" where
  "randint w a b k = a + int (w_randint w k) mod (b - a + 1)"

fun probe_ports :: "world \<Rightarrow> nat \<Rightarrow> connector \<Rightarrow> (exn + int) \<times> connector" where
  "probe_ports w 0 s =
     (Inl (PyException ''Failed to find an available port for port-forwarding.''), s)"
| "probe_ports w (Suc n) s =
     (let port = randint w 30000 40000 (calls s KRandint);
          s1 = tick KRandint s;
          r = w_connect_ex w (calls s1 KConnectEx);
          s2 = emit (ConnectEx port) (tick KConnectEx s1)
      in if r \<noteq> 0 then (Inr port, s2) else probe_ports w n s2)"

definition get_random_available_port :: "world \<Rightarrow> connector \<Rightarrow> (exn + int) \<times> connector" where
  "get_random_available_port w s = probe_ports w 100 s"

subsection \<open>The tunnel: \<open>port_forward_postgres\<close>\<close>

definition validate_kube_config :: "world \<Rightarrow> connector \<Rightarrow> bool \<times> connector" where
  "validate_kube_config w s =
     (let s1 = tick KKubeConfig s in
      case w_kube_config w (calls s KKubeConfig) of
        Absent \<Rightarrow> (False, s1)
      | Malformed \<Rightarrow> (False, logger ERROR ''Invalid Kubernetes config file'' s1)
      | WellFormed \<Rightarrow> (True, logger INFO ''Kubernetes config file is valid'' s1))"

text \<open>Step 1: back up a configuration that does not validate.\<close>

definition backup_kube_config :: "world \<Rightarrow> connector \<Rightarrow> connector" where
  "backup_kube_config w s =
     (case validate_kube_config w s of
        (True, s1) \<Rightarrow> s1
      | (False, s1) \<Rightarrow>
          (let s2 = logger WARNING ''Invalid kube config detected. Backing up and regenerating.'' s1;
               present = (w_kube_config w (calls s2 KKubeConfig) \<noteq> Absent);
               s3 = tick KKubeConfig s2
           in if present then logger INFO ''Backed up corrupted kube config'' (emit Rename s3)
              else s3))"

text \<open>Step 2: \<open>for login_attempt in range(1, self.max_retries + 1)\<close>, by the attempts left.\<close>

fun login_loop :: "world \<Rightarrow> nat \<Rightarrow> connector \<Rightarrow> bool \<times> connector" where
  "login_loop w 0 s = (False, s)"
| "login_loop w (Suc n) s =
     (let s1 = emit OcLogin (logger INFO ''Logging in to OpenShift server'' s);
          returncode = w_login w (calls s1 KLogin);
          s2 = tick KLogin s1;
          (valid, s3) = (if returncode = 0 then validate_kube_config w s2 else (False, s2))
      in if valid
         then (True, logger INFO ''Successfully logged into OpenShift with a valid kube config.'' s3)
         else login_loop w n (sleep (retry_delay s3) (logger WARNING ''Login attempt failed'' s3)))"

text \<open>Step 3: \<open>for attempt in range(1, self.max_retries + 1)\<close>, by the attempts left.\<close>

fun forward_loop :: "world \<Rightarrow> nat \<Rightarrow> connector \<Rightarrow> (exn + nat) \<times> connector" where
  "forward_loop w 0 s =
     (Inl (PyException ''Port-forwarding failed after multiple attempts.''),
      logger ERROR ''Failed to establish port-forwarding after multiple attempts.'' s)"
| "forward_loop w (Suc n) s =
     (case get_random_available_port w s of
        (Inl e, s1) \<Rightarrow> (Inl e, s1)
      | (Inr port, s1) \<Rightarrow>
          (let s2 = logger INFO ''Starting port-forward'' (s1\<lparr>local_port := port\<rparr>);
               pid = calls s2 KSpawn;
               s3 = sleep 3 (emit (Spawn pid port) (tick KSpawn s2));
               status = w_poll w (calls s3 KPoll);
               s4 = tick KPoll s3
           in if status = None
              then (Inr pid, logger INFO ''Port forwarding successful.'' s4)
              else forward_loop w n
                     (sleep (retry_delay s4)
                        (emit (Terminate pid)
                           (logger WARNING ''Port-forwarding failed. Retrying with a different port.'' s4)))))"

definition port_forward_postgres :: "world \<Rightarrow> connector \<Rightarrow> (exn + nat) \<times> connector" where
  "port_forward_postgres w s =
     (let s1 = backup_kube_config w s;
          (login_successful, s2) = login_loop w (nat (max_retries s1)) s1
      in if \<not> login_successful
         then (Inl (if max_retries s2 < 1 then AttributeError
                    else PyException ''Login to OpenShift failed after multiple attempts''),
               logger ERROR ''Failed to log in to OpenShift after multiple attempts.'' s2)
         else forward_loop w (nat (max_retries s2)) s2)"

subsection \<open>Connecting, the pool, \<open>reconnect\<close> and \<open>__exit__\<close>\<close>

definition connect_to_postgres :: "world \<Rightarrow> connector \<Rightarrow> (exn + nat) \<times> connector" where
  "connect_to_postgres w s =
     (let k = calls s KConnect;
          s1 = emit (Connect k) (tick KConnect s)
      in case w_connect w k of
           Some e \<Rightarrow> (Inl e, logger ERROR ''Error while connecting to PostgreSQL'' s1)
         | None \<Rightarrow>
             (Inr k, logger INFO ''Connected to PostgreSQL''
                       (s1\<lparr>conns := (conns s1)(k := \<lparr>closed = False, isolation_level = None\<rparr>)\<rparr>)))"

definition create_connection_pool :: "world \<Rightarrow> connector \<Rightarrow> exn option \<times> connector" where
  "create_connection_pool w s =
     (let k = calls s KPool;
          s1 = emit (NewPool k) (tick KPool s)
      in case w_pool w k of
           Some e \<Rightarrow> (Some e, s1)
         | None \<Rightarrow> (None, logger INFO ''Created connection pool'' (s1\<lparr>connection_pool := Some k\<rparr>)))"

definition pool_closeall :: "world \<Rightarrow> nat \<Rightarrow> connector \<Rightarrow> exn option \<times> connector" where
  "pool_closeall w p s = (w_closeall w (calls s KCloseAll), emit (CloseAll p) (tick KCloseAll s))"

definition connection_close :: "world \<Rightarrow> nat \<Rightarrow> connector \<Rightarrow> exn option \<times> connector" where
  "connection_close w c s =
     (let s1 = emit (Close c) (tick KClose s) in
      case w_close w (calls s KClose) of
        Some e \<Rightarrow> (Some e, s1)
      | None \<Rightarrow> (None, s1\<lparr>conns := (conns s1)(c := (conns s1 c)\<lparr>closed := True\<rparr>)\<rparr>))"

definition process_terminate :: "world \<Rightarrow> nat \<Rightarrow> connector \<Rightarrow> exn option \<times> connector" where
  "process_terminate w pid s =
     (w_terminate w (calls s KTerminate), emit (Terminate pid) (tick KTerminate s))"

text \<open>The four steps of \<open>reconnect\<close>.\<close>

definition reconnect_stop_tunnel :: "world \<Rightarrow> connector \<Rightarrow> exn option \<times> connector" where
  "reconnect_stop_tunnel w s =
     (case port_forward_process s of
        None \<Rightarrow> (None, s)
      | Some pid \<Rightarrow>
          if is_ci s then (None, s)
          else then_run (process_terminate w pid s)
                 (\<lambda>t. (None, logger INFO ''Terminated the previous port-forwarding process.'' t)))"

definition reconnect_start_tunnel :: "world \<Rightarrow> connector \<Rightarrow> exn option \<times> connector" where
  "reconnect_start_tunnel w s =
     (if is_ci s then (None, s)
      else case port_forward_postgres w s of
             (Inl e, t) \<Rightarrow> (Some e, t)
           | (Inr pid, t) \<Rightarrow> (None, t\<lparr>port_forward_process := Some pid\<rparr>))"

definition reconnect_open :: "world \<Rightarrow> connector \<Rightarrow> exn option \<times> connector" where
  "reconnect_open w s =
     (case connect_to_postgres w s of
        (Inl e, t) \<Rightarrow> (Some e, t)
      | (Inr c, t) \<Rightarrow> (None, t\<lparr>connection := Some c\<rparr>))"

definition reconnect_pool :: "world \<Rightarrow> connector \<Rightarrow> exn option \<times> connector" where
  "reconnect_pool w s =
     (case connection_pool s of
        None \<Rightarrow> (None, s)
      | Some p \<Rightarrow> then_run (pool_closeall w p s) (create_connection_pool w))"

definition reconnect :: "world \<Rightarrow> connector \<Rightarrow> exn option \<times> connector" where
  "reconnect w s =
     then_run (then_run (then_run (then_run
       (reconnect_stop_tunnel w (logger INFO ''Reconnecting to port-forwarding and database...'' s))
       (reconnect_start_tunnel w))
       (reconnect_open w))
       (reconnect_pool w))
       (\<lambda>t. (None, logger INFO ''Reconnected successfully to the database.'' t))"

text \<open>\<open>__exit__\<close>: three steps, each under an \<open>if\<close> on the resource it cleans up.\<close>

definition exit_pool :: "world \<Rightarrow> connector \<Rightarrow> exn option \<times> connector" where
  "exit_pool w s =
     (case connection_pool s of
        None \<Rightarrow> (None, s)
      | Some p \<Rightarrow> then_run (pool_closeall w p s)
                    (\<lambda>t. (None, logger INFO ''PostgreSQL connection pool closed.'' t)))"

definition exit_connection :: "world \<Rightarrow> connector \<Rightarrow> exn option \<times> connector" where
  "exit_connection w s =
     (case connection s of
        None \<Rightarrow> (None, s)
      | Some c \<Rightarrow> then_run (connection_close w c s)
                    (\<lambda>t. (None, logger INFO ''PostgreSQL connection closed.'' t)))"

definition exit_tunnel :: "world \<Rightarrow> connector \<Rightarrow> exn option \<times> connector" where
  "exit_tunnel w s =
     (case port_forward_process s of
        None \<Rightarrow> (None, s)
      | Some pid \<Rightarrow>
          if is_ci s then (None, s)
          else then_run (process_terminate w pid s)
                 (\<lambda>t. (None, logger INFO ''Port-forwarding process terminated.'' t)))"

definition exit_connector :: "world \<Rightarrow> connector \<Rightarrow> exn option \<times> connector" where
  "exit_connector w s = then_run (then_run (exit_pool w s) (exit_connection w)) (exit_tunnel w)"


subsection \<open>Cursor and connection calls\<close>

definition cursor_execute ::
  "world \<Rightarrow> nat \<Rightarrow> string \<Rightarrow> pyval list option \<Rightarrow> connector \<Rightarrow> (exn + cursor_result) \<times> connector" where
  "cursor_execute w c q ps s =
     (w_execute w (calls s KExecute), emit (Execute c q ps) (tick KExecute s))"

definition cursor_executemany ::
  "world \<Rightarrow> nat \<Rightarrow> string \<Rightarrow> pyval list \<Rightarrow> connector \<Rightarrow> (exn + cursor_result) \<times> connector" where
  "cursor_executemany w c q batch s =
     (w_execute w (calls s KExecute), emit (ExecuteMany c q batch) (tick KExecute s))"

definition connection_commit :: "world \<Rightarrow> nat \<Rightarrow> connector \<Rightarrow> exn option \<times> connector" where
  "connection_commit w c s = (w_commit w (calls s KCommit), emit (Commit c) (tick KCommit s))"

definition connection_rollback :: "nat \<Rightarrow> connector \<Rightarrow> connector" where
  "connection_rollback c s = emit (Rollback c) s"

definition set_isolation_level :: "nat \<Rightarrow> int option \<Rightarrow> connector \<Rightarrow> connector" where
  "set_isolation_level c lvl s =
     emit (SetIsolation c lvl) (s\<lparr>conns := (conns s)(c := (conns s c)\<lparr>isolation_level := lvl\<rparr>)\<rparr>)"

definition ISOLATION_LEVEL_READ_COMMITTED :: int where
  "ISOLATION_LEVEL_READ_COMMITTED = 1"

text \<open>\<open>dict(zip(column_names, row))\<close>: of two equal column names the later one wins.\<close>

definition row_dict :: "string list \<Rightarrow> pyval list \<Rightarrow> (string \<rightharpoonup> pyval)" where
  "row_dict column_names row = map_of (rev (zip column_names row))"

text \<open>
  The end of \<open>run_query\<close> and of \<open>execute_prepared_statement\<close>: the rows of a cursor with a
  description, shaped by the fetch mode. \<open>fetchone()\<close> gives the first row or \<open>None\<close>.
\<close>

definition fetch_result :: "fetch_mode \<Rightarrow> string list \<Rightarrow> pyval list list \<Rightarrow> result" where
  "fetch_result fetch column_names rs =
     (case fetch of
        FetchOne \<Rightarrow>
          (case rs of
             [] \<Rightarrow> RNone
           | row # rest \<Rightarrow> if row \<noteq> [] then ROne (row_dict column_names row) else RNone)
      | FetchAll \<Rightarrow> RAll (map (row_dict column_names) rs))"

text \<open>\<open>not cursor.description\<close>.\<close>

definition no_description :: "cursor_result \<Rightarrow> bool" where
  "no_description cr = (description cr = None \<or> description cr = Some [])"

subsection \<open>\<open>transaction\<close>\<close>

text \<open>
  The block under \<open>with db.transaction():\<close> is any code of the caller: it changes the
  connector and may raise. \<open>conn\<close> is the connection object the connector holds on entry.
\<close>

definition transaction ::
  "world \<Rightarrow> (connector \<Rightarrow> exn option \<times> connector) \<Rightarrow> connector \<Rightarrow> exn option \<times> connector" where
  "transaction w body s =
     (case connection s of
        None \<Rightarrow> (Some AttributeError, s)
      | Some conn \<Rightarrow>
          (let old_isolation_level = isolation_level (conns s conn);
               s1 = set_isolation_level conn (Some ISOLATION_LEVEL_READ_COMMITTED) s;
               (raised, s3) =
                  (case then_run (body s1) (connection_commit w conn) of
                     (None, s2) \<Rightarrow> (None, s2)
                   | (Some e, s2) \<Rightarrow>
                       (Some e, logger ERROR ''Transaction failed'' (connection_rollback conn s2)))
           in (raised, set_isolation_level conn old_isolation_level s3)))"

subsection \<open>\<open>batch_insert\<close>\<close>

definition batch_insert_query :: "string \<Rightarrow> string list \<Rightarrow> string" where
  "batch_insert_query table_name columns =
     (let columns_str = str_join '', '' columns;
          placeholders = str_join '', '' (replicate (length columns) ''%s'')
      in ''@INSERT INTO '' @ table_name @ '' ('' @ columns_str @ '') VALUES ('' @ placeholders @ '')'')"

text \<open>
  \<open>for i in range(0, len(values_list), batch_size)\<close> with a positive step, from index \<open>i\<close> on.
  \<open>values_list[i:i + batch_size]\<close> is \<open>take batch_size (drop i values_list)\<close>.
\<close>

function batch_loop ::
  "world \<Rightarrow> nat \<Rightarrow> string \<Rightarrow> pyval list \<Rightarrow> nat \<Rightarrow> nat \<Rightarrow> connector \<Rightarrow> exn option \<times> connector" where
  "batch_loop w c q values_list batch_size i s =
     (if batch_size = 0 \<or> length values_list \<le> i then (None, s)
      else case cursor_executemany w c q (take batch_size (drop i values_list)) s of
             (Inl e, s1) \<Rightarrow> (Some e, s1)
           | (Inr cr, s1) \<Rightarrow>
               (case connection s1 of
                  None \<Rightarrow> (Some AttributeError, s1)
                | Some conn \<Rightarrow>
                    (case connection_commit w conn s1 of
                       (Some e, s2) \<Rightarrow> (Some e, s2)
                     | (None, s2) \<Rightarrow> batch_loop w c q values_list batch_size (i + batch_size) s2)))"
  by pat_completeness auto
termination
  by (relation "measure (\<lambda>(w, c, q, values_list, batch_size, i, s). length values_list - i)") auto

text \<open>
  \<open>range\<close> raises \<open>ValueError\<close> for the step 0 and is empty for a negative step. The
  \<open>except Exception\<close> clause rolls back on the connection the connector holds then.
\<close>

definition batch_insert ::
  "world \<Rightarrow> string \<Rightarrow> string list \<Rightarrow> pyval list \<Rightarrow> int \<Rightarrow> connector \<Rightarrow> (exn + bool) \<times> connector" where
  "batch_insert w table_name columns values_list batch_size s =
     (if values_list = [] then (Inr True, s)
      else case connection s of
             None \<Rightarrow> (Inl AttributeError, s)
           | Some c \<Rightarrow>
               (case (if batch_size = 0 then (Some ValueError, s)
                      else if batch_size < 0 then (None, s)
                      else batch_loop w c (batch_insert_query table_name columns) values_list
                             (nat batch_size) 0 s) of
                  (None, s1) \<Rightarrow> (Inr True, logger INFO ''Batch inserted records'' s1)
                | (Some e, s1) \<Rightarrow>
                    (case connection s1 of
                       None \<Rightarrow> (Inl AttributeError, s1)
                     | Some conn \<Rightarrow>
                         (Inl e, logger ERROR ''Batch insert failed'' (connection_rollback conn s1)))))"

subsection \<open>\<open>execute_prepared_statement\<close>\<close>

definition params_placeholders :: "nat \<Rightarrow> string" where
  "params_placeholders n = str_join '', '' (map (\<lambda>i. CHR ''$'' # str_nat (i + 1)) [0..<n])"

text \<open>The body of the \<open>try\<close> block: the statement is prepared when its name is new, ...\<close>

definition prepare_step ::
  "world \<Rightarrow> nat \<Rightarrow> string \<Rightarrow> string \<Rightarrow> connector \<Rightarrow> exn option \<times> connector" where
  "prepare_step w c statement_name q s =
     (if statement_name \<notin> prepared_statements s
      then (case cursor_execute w c (''PREPARE '' @ statement_name @ '' AS '' @ q) None s of
              (Inl e, s1) \<Rightarrow> (Some e, s1)
            | (Inr cr, s1) \<Rightarrow>
                (None, s1\<lparr>prepared_statements := insert statement_name (prepared_statements s1)\<rparr>))
      else (None, s))"

text \<open>... and then executed by name, with the parameters if there are any.\<close>

definition execute_step ::
  "world \<Rightarrow> nat \<Rightarrow> string \<Rightarrow> pyval list option \<Rightarrow> fetch_mode \<Rightarrow> connector
     \<Rightarrow> (exn + result) \<times> connector" where
  "execute_step w c statement_name params fetch s1 =
     (let k = calls s1 KExecute in
      case (case params of
              None \<Rightarrow> cursor_execute w c (''EXECUTE '' @ statement_name) None s1
            | Some ps \<Rightarrow>
                if ps \<noteq> []
                then cursor_execute w c
                       (''EXECUTE '' @ statement_name @ ''('' @ params_placeholders (length ps) @ '')'')
                       (Some ps) s1
                else cursor_execute w c (''EXECUTE '' @ statement_name) None s1) of
        (Inl e, s2) \<Rightarrow> (Inl e, s2)
      | (Inr cr, s2) \<Rightarrow>
          (let s3 = (if w_slow w k then logger ERROR ''Slow prepared statement detected'' s2 else s2) in
           if no_description cr
           then (case connection s3 of
                   None \<Rightarrow> (Inl AttributeError, s3)
                 | Some conn \<Rightarrow>
                     (case connection_commit w conn s3 of
                        (Some e, s4) \<Rightarrow> (Inl e, s4)
                      | (None, s4) \<Rightarrow> (Inr RNone, s4)))
           else (Inr (fetch_result fetch (the (description cr)) (rows cr)), s3)))"

definition prepared_body ::
  "world \<Rightarrow> nat \<Rightarrow> string \<Rightarrow> string \<Rightarrow> pyval list option \<Rightarrow> fetch_mode \<Rightarrow> connector
     \<Rightarrow> (exn + result) \<times> connector" where
  "prepared_body w c statement_name q params fetch s =
     (case prepare_step w c statement_name q s of
        (Some e, s1) \<Rightarrow> (Inl e, s1)
      | (None, s1) \<Rightarrow> execute_step w c statement_name params fetch s1)"

definition execute_prepared_statement ::
  "world \<Rightarrow> string \<Rightarrow> string \<Rightarrow> pyval list option \<Rightarrow> fetch_mode \<Rightarrow> connector
     \<Rightarrow> (exn + result) \<times> connector" where
  "execute_prepared_statement w statement_name q params fetch s =
     (case connection s of
        None \<Rightarrow> (Inl AttributeError, s)
      | Some c \<Rightarrow>
          (case prepared_body w c statement_name q params fetch s of
             (Inr r, s1) \<Rightarrow> (Inr r, s1)
           | (Inl e, s1) \<Rightarrow>
               (case connection s1 of
                  None \<Rightarrow> (Inl AttributeError, s1)
                | Some conn \<Rightarrow>
                    (let s2 = logger ERROR ''Prepared statement execution failed''
                                (connection_rollback conn s1)
                     in (Inl e, s2\<lparr>prepared_statements := prepared_statements s2 - {statement_name}\<rparr>)))))"


subsection \<open>\<open>run_query\<close>\<close>

text \<open>
  \<open>query.strip().lower().split()[0] if query.strip() else ""\<close>; indexing an empty list
  raises \<open>IndexError\<close>.
\<close>

definition query_type_of :: "string \<Rightarrow> exn + string" where
  "query_type_of q =
     (if str_strip q \<noteq> []
      then (case str_split (str_lower (str_strip q)) of
              [] \<Rightarrow> Inl IndexError
            | t # ts \<Rightarrow> Inr t)
      else Inr [])"

text \<open>
  The "simplified parser" of the bulk-insert branch:
  \<^verbatim>\<open>table_match = query.lower().split('insert into')[1].split('(')[0].strip()\<close>,
  \<^verbatim>\<open>columns_match = query.split('(')[1].split(')')[0]\<close>,
  \<^verbatim>\<open>columns = [col.strip() for col in columns_match.split(',')]\<close>.
\<close>

definition parse_insert :: "string \<Rightarrow> exn + string \<times> string list" where
  "parse_insert q =
     (case str_split_on ''insert into'' (str_lower q) of
        a # b # bs \<Rightarrow>
          (case str_split_on ''('' b of
             [] \<Rightarrow> Inl IndexError
           | t # ts \<Rightarrow>
               (case str_split_on ''('' q of
                  x # y # ys \<Rightarrow>
                    (case str_split_on '')'' y of
                       [] \<Rightarrow> Inl IndexError
                     | columns_match # cs \<Rightarrow>
                         Inr (str_strip t, map str_strip (str_split_on '','' columns_match)))
                | _ \<Rightarrow> Inl IndexError))
      | _ \<Rightarrow> Inl IndexError)"

text \<open>
  The \<open>try\<close> block of the bulk-insert branch. \<open>Some r\<close> is \<open>return self.batch_insert(...)\<close>;
  \<open>None\<close> is the \<open>except Exception\<close> clause, after which \<open>run_query\<close> goes on.
\<close>

definition try_batch ::
  "world \<Rightarrow> string \<Rightarrow> pyval list \<Rightarrow> connector \<Rightarrow> (exn + result) option \<times> connector" where
  "try_batch w q ps s =
     (case parse_insert q of
        Inl e \<Rightarrow>
          (None, logger WARNING ''Could not convert to batch insert. Using standard execution.'' s)
      | Inr (table_match, columns) \<Rightarrow>
          (case batch_insert w table_match columns ps 1000
                  (logger INFO ''Converting to batch insert'' s) of
             (Inr b, s1) \<Rightarrow> (Some (Inr (RBool b)), s1)
           | (Inl e, s1) \<Rightarrow>
               (None, logger WARNING ''Could not convert to batch insert. Using standard execution.'' s1)))"

definition log_slow_query :: "string \<Rightarrow> connector \<Rightarrow> connector" where
  "log_slow_query query_type s =
     (let s1 = logger ERROR ''Slow query detected'' s in
      if query_type = ''insert''
      then logger WARNING
             ''Consider using batch_insert() for better performance with multiple INSERTs'' s1
      else s1)"

text \<open>
  The \<open>except\<close> clause of the retry loop, for a transient error \<open>e\<close> of the attempt
  \<open>attempt\<close>: roll back, log, sleep \<open>0.2 * (2 ** attempt)\<close> seconds (kept as a rational
  number), and reconnect when the error is a connection issue and an attempt is left. The
  value is the connection of the cursor to use next: \<open>cur\<close>, or after a reconnect the new
  connection. \<open>retries\<close> is the argument \<open>max_retries\<close> of \<open>run_query\<close>.
\<close>

definition after_transient ::
  "world \<Rightarrow> int \<Rightarrow> nat \<Rightarrow> nat \<Rightarrow> exn \<Rightarrow> connector \<Rightarrow> (exn + nat) \<times> connector" where
  "after_transient w retries attempt cur e s1 =
     (case connection s1 of
        None \<Rightarrow> (Inl AttributeError, s1)
      | Some conn \<Rightarrow>
          (let s2 = sleep (1 / 5 * 2 ^ attempt)
                      (logger WARNING ''Attempt failed'' (connection_rollback conn s1))
           in if is_connection_issue e \<and> int attempt < retries - 1
              then (case reconnect w s2 of
                      (Some e', s3) \<Rightarrow> (Inl e', s3)
                    | (None, s3) \<Rightarrow>
                        (case connection s3 of
                           None \<Rightarrow> (Inl AttributeError, s3)
                         | Some cur' \<Rightarrow> (Inr cur', s3)))
              else (Inr cur, s2)))"

text \<open>
  \<open>for attempt in range(max_retries)\<close> with its \<open>else\<close> clause, from the attempt \<open>attempt\<close> on.
  \<open>cur\<close> is the connection of the cursor in use.
\<close>

function retry_loop ::
  "world \<Rightarrow> string \<Rightarrow> pyval list option \<Rightarrow> string \<Rightarrow> int \<Rightarrow> nat \<Rightarrow> nat \<Rightarrow> connector
     \<Rightarrow> (exn + cursor_result) \<times> connector" where
  "retry_loop w q params query_type retries attempt cur s =
     (if retries \<le> int attempt
      then (Inl (PyException (''Failed to execute query after '' @ str_int retries @ '' attempts.'')),
            logger ERROR ''Failed to execute query after attempts.'' s)
      else
        (let k = calls s KExecute in
         case cursor_execute w cur q params s of
           (Inr cr, s1) \<Rightarrow> (Inr cr, if w_slow w k then log_slow_query query_type s1 else s1)
         | (Inl e, s1) \<Rightarrow>
             if \<not> is_transient e then (Inl e, s1)
             else
               (case after_transient w retries attempt cur e s1 of
                  (Inl e', s3) \<Rightarrow> (Inl e', s3)
                | (Inr cur', s3) \<Rightarrow>
                    retry_loop w q params query_type retries (Suc attempt) cur' s3)))"
  by pat_completeness auto
termination
  by (relation "measure (\<lambda>(w, q, params, query_type, retries, attempt, cur, s).
                   nat (retries - int attempt))") auto

definition standard_execution ::
  "world \<Rightarrow> string \<Rightarrow> string \<Rightarrow> fetch_mode \<Rightarrow> int \<Rightarrow> pyval list option \<Rightarrow> connector
     \<Rightarrow> (exn + result) \<times> connector" where
  "standard_execution w q query_type fetch retries params s =
     (case connection s of
        None \<Rightarrow> (Inl AttributeError, s)
      | Some cur \<Rightarrow>
          (case retry_loop w q params query_type retries 0 cur s of
             (Inl e, s1) \<Rightarrow> (Inl e, s1)
           | (Inr cr, s1) \<Rightarrow>
               if query_type = ''delete'' \<or> query_type = ''insert'' \<or> query_type = ''update''
                  \<or> no_description cr
               then (case connection s1 of
                       None \<Rightarrow> (Inl AttributeError, s1)
                     | Some conn \<Rightarrow>
                         (case connection_commit w conn s1 of
                            (Some e, s2) \<Rightarrow> (Inl e, s2)
                          | (None, s2) \<Rightarrow> (Inr RNone, s2)))
               else (Inr (fetch_result fetch (the (description cr)) (rows cr)), s1)))"

text \<open>\<open>run_query\<close> after the connection check, on the escaped statement \<open>q\<close>.\<close>

definition run_escaped ::
  "world \<Rightarrow> string \<Rightarrow> fetch_mode \<Rightarrow> int \<Rightarrow> pyval list option \<Rightarrow> bool \<Rightarrow> connector
     \<Rightarrow> (exn + result) \<times> connector" where
  "run_escaped w q fetch retries params use_prepared s =
     (case query_type_of q of
        Inl e \<Rightarrow> (Inl e, s)
      | Inr query_type \<Rightarrow>
          (case (if query_type = ''insert'' \<and> str_in ''values'' (str_lower q)
                 then (case params of
                         None \<Rightarrow> (None, s)
                       | Some ps \<Rightarrow> if ps \<noteq> [] \<and> 10 < length ps then try_batch w q ps s else (None, s))
                 else (None, s)) of
             (Some r, s1) \<Rightarrow> (r, s1)
           | (None, s1) \<Rightarrow>
               if use_prepared \<and> params \<noteq> None
               then execute_prepared_statement w (''stmt_'' @ str_int (w_hash w q)) q params fetch s1
               else standard_execution w q query_type fetch retries params s1))"

definition connection_unusable :: "connector \<Rightarrow> bool" where
  "connection_unusable s =
     (case connection s of None \<Rightarrow> True | Some c \<Rightarrow> closed (conns s c))"

definition run_query ::
  "world \<Rightarrow> string \<Rightarrow> fetch_mode \<Rightarrow> int \<Rightarrow> pyval list option \<Rightarrow> bool \<Rightarrow> connector
     \<Rightarrow> (exn + result) \<times> connector" where
  "run_query w query fetch retries params use_prepared s =
     (case (if connection_unusable s
            then reconnect w (logger WARNING ''Database connection is closed. Reconnecting...'' s)
            else (None, s)) of
        (Some e, s1) \<Rightarrow> (Inl e, s1)
      | (None, s1) \<Rightarrow>
          run_escaped w (escape_single_quotes (w_word w) query) fetch retries params use_prepared s1)"


subsection \<open>A concrete world and a concrete connector\<close>

text \<open>
  A world in which every external call succeeds at once: free ports, a valid cluster
  configuration, a tunnel that stays up, statements that return no result set.
\<close>

definition calm_world :: world where
  "calm_world =
     \<lparr>w_word = ascii_word, w_hash = (\<lambda>q. 7), w_randint = (\<lambda>k. 0), w_connect_ex = (\<lambda>k. 111),
      w_kube_config = (\<lambda>k. WellFormed), w_login = (\<lambda>k. 0), w_poll = (\<lambda>k. None),
      w_terminate = (\<lambda>k. None), w_connect = (\<lambda>k. None), w_pool = (\<lambda>k. None),
      w_closeall = (\<lambda>k. None), w_close = (\<lambda>k. None),
      w_execute = (\<lambda>k. Inr \<lparr>description = None, rows = []\<rparr>), w_slow = (\<lambda>k. False),
      w_commit = (\<lambda>k. None)\<rparr>"

text \<open>
  An activated connector outside CI: connection 0, pool 0 and tunnel process 0 are live,
  nothing has been prepared, and no call has been recorded yet.
\<close>

definition live_connector :: connector where
  "live_connector =
     \<lparr>pod_name = ''db-pod'', namespace = ''stage'', local_port = 31000, pod_port = 5432,
      dbname = ''registry'', user = ''qa'', password = ''secret'',
      connection = Some 0, connection_pool = Some 0, port_forward_process = Some 0,
      max_retries = 2, retry_delay = 2, is_ci = False, prepared_statements = {},
      conns = (\<lambda>c. \<lparr>closed = False, isolation_level = None\<rparr>),
      trace = [], logs = [],
      calls = (\<lambda>k. if k = KConnect \<or> k = KPool \<or> k = KSpawn then 1 else 0)\<rparr>"

named_theorems run \<open>unfolding rules for running the model on concrete inputs\<close>

declare emit_def [run] tick_def [run] logger_def [run] sleep_def [run] then_run_def [run]
declare randint_def [run] get_random_available_port_def [run] validate_kube_config_def [run]
declare backup_kube_config_def [run] port_forward_postgres_def [run]
declare connect_to_postgres_def [run] create_connection_pool_def [run] pool_closeall_def [run]
declare connection_close_def [run] process_terminate_def [run]
declare reconnect_stop_tunnel_def [run] reconnect_start_tunnel_def [run] reconnect_open_def [run]
declare reconnect_pool_def [run] reconnect_def [run]
declare exit_pool_def [run] exit_connection_def [run] exit_tunnel_def [run] exit_connector_def [run]
declare cursor_execute_def [run] cursor_executemany_def [run] connection_commit_def [run]
declare connection_rollback_def [run] set_isolation_level_def [run]
declare ISOLATION_LEVEL_READ_COMMITTED_def [run] no_description_def [run] fetch_result_def [run]
declare transaction_def [run] batch_insert_query_def [run] batch_insert_def [run]
declare params_placeholders_def [run] prepare_step_def [run] execute_step_def [run]
declare prepared_body_def [run] execute_prepared_statement_def [run]
declare query_type_of_def [run] parse_insert_def [run] try_batch_def [run] log_slow_query_def [run]
declare after_transient_def [run] standard_execution_def [run] run_escaped_def [run] connection_unusable_def [run]
declare run_query_def [run] escape_single_quotes_def [run]
declare str_lower_def [run] char_lower_def [run] isspace_def [run] str_strip_def [run]
declare str_split_def [run] str_split_on_def [run] str_int_def [run] digit_char_def [run]
declare is_transient_def [run] is_connection_issue_def [run] ascii_word_def [run] quote_def [run]
declare calm_world_def [run] live_connector_def [run] Let_def [run]


text \<open>What the connector sees after the server has dropped its connections.\<close>

definition connection_lost :: "connector \<Rightarrow> connector" where
  "connection_lost s = s\<lparr>conns := (\<lambda>c. (conns s c)\<lparr>closed := True\<rparr>)\<rparr>"

declare connection_lost_def [run]

declare str_nat.simps [simp del] retry_loop.simps [simp del] batch_loop.simps [simp del]

subsection \<open>Deactivation, step by step\<close>

text \<open>
  What each of the three steps of \<open>__exit__\<close> is meant to do: the call it makes when its
  resource is present, and the exception, if any, the world answers that call with.
\<close>

definition pool_events :: "connector \<Rightarrow> event list" where
  "pool_events s = (case connection_pool s of None \<Rightarrow> [] | Some p \<Rightarrow> [CloseAll p])"

definition connection_events :: "connector \<Rightarrow> event list" where
  "connection_events s = (case connection s of None \<Rightarrow> [] | Some c \<Rightarrow> [Close c])"

definition tunnel_events :: "connector \<Rightarrow> event list" where
  "tunnel_events s =
     (case port_forward_process s of
        None \<Rightarrow> []
      | Some pid \<Rightarrow> if is_ci s then [] else [Terminate pid])"

definition pool_failure :: "world \<Rightarrow> connector \<Rightarrow> exn option" where
  "pool_failure w s =
     (case connection_pool s of None \<Rightarrow> None | Some p \<Rightarrow> w_closeall w (calls s KCloseAll))"

definition connection_failure :: "world \<Rightarrow> connector \<Rightarrow> exn option" where
  "connection_failure w s =
     (case connection s of None \<Rightarrow> None | Some c \<Rightarrow> w_close w (calls s KClose))"

definition tunnel_failure :: "world \<Rightarrow> connector \<Rightarrow> exn option" where
  "tunnel_failure w s =
     (case port_forward_process s of
        None \<Rightarrow> None
      | Some pid \<Rightarrow> if is_ci s then None else w_terminate w (calls s KTerminate))"

subsection \<open>What a run of failing forwarding attempts looks like\<close>

text \<open>The local ports of the forwarding processes started, in order.\<close>

fun spawn_ports :: "event list \<Rightarrow> int list" where
  "spawn_ports [] = []"
| "spawn_ports (Spawn pid port # es) = port # spawn_ports es"
| "spawn_ports (e # es) = spawn_ports es"

text \<open>
  The calls of the \<open>i\<close>-th forwarding attempt made from the state \<open>s\<close> on, when every probed
  port is free and the forwarding process has exited at each check: the port comes from the
  \<open>i\<close>-th further draw of the random source.
\<close>

definition attempt_events :: "world \<Rightarrow> connector \<Rightarrow> nat \<Rightarrow> event list" where
  "attempt_events w s i =
     (let port = randint w 30000 40000 (calls s KRandint + i);
          pid = calls s KSpawn + i
      in [ConnectEx port, Spawn pid port, Sleep 3, Terminate pid, Sleep (retry_delay s)])"

text \<open>The connector after an attempt whose port was free and whose process had exited.\<close>

definition after_failed_attempt :: "world \<Rightarrow> connector \<Rightarrow> connector" where
  "after_failed_attempt w s =
     (let port = randint w 30000 40000 (calls s KRandint);
          s1 = emit (ConnectEx port) (tick KConnectEx (tick KRandint s));
          s2 = logger INFO ''Starting port-forward'' (s1\<lparr>local_port := port\<rparr>);
          pid = calls s2 KSpawn;
          s3 = sleep 3 (emit (Spawn pid port) (tick KSpawn s2));
          s4 = tick KPoll s3
      in sleep (retry_delay s4)
           (emit (Terminate pid)
              (logger WARNING ''Port-forwarding failed. Retrying with a different port.'' s4)))"

text \<open>The connector after a login that succeeds at once on a well-formed configuration.\<close>

definition after_login :: "connector \<Rightarrow> connector" where
  "after_login s =
     logger INFO ''Successfully logged into OpenShift with a valid kube config.''
       (logger INFO ''Kubernetes config file is valid''
          (tick KKubeConfig
             (tick KLogin
                (emit OcLogin
                   (logger INFO ''Logging in to OpenShift server''
                      (logger INFO ''Kubernetes config file is valid'' (tick KKubeConfig s)))))))"

subsection \<open>Stretches of a run\<close>

text \<open>The calls \<open>reconnect\<close> can make: everything but statements, commits and rollbacks.\<close>

definition infra :: "event \<Rightarrow> bool" where
  "infra e =
     (case e of
        Execute c q ps \<Rightarrow> False
      | ExecuteMany c q b \<Rightarrow> False
      | Commit c \<Rightarrow> False
      | Rollback c \<Rightarrow> False
      | SetIsolation c l \<Rightarrow> False
      | _ \<Rightarrow> True)"

text \<open>\<open>s'\<close> comes after \<open>s\<close>, and every call made in between satisfies \<open>P\<close>.\<close>

definition extends_by :: "(event \<Rightarrow> bool) \<Rightarrow> connector \<Rightarrow> connector \<Rightarrow> bool" where
  "extends_by P s s' =
     (prefix (trace s) (trace s') \<and> list_all P (drop (length (trace s)) (trace s')))"

text \<open>
  A stretch of the run in which only such calls are made and which leaves the configuration,
  the count of executed statements and the registry of prepared statements as they were.
\<close>

definition infra_step :: "connector \<Rightarrow> connector \<Rightarrow> bool" where
  "infra_step s s' =
     (extends_by infra s s' \<and> is_ci s' = is_ci s \<and> max_retries s' = max_retries s
      \<and> calls s' KExecute = calls s KExecute
      \<and> prepared_statements s' = prepared_statements s)"

subsection \<open>Commits and the bulk-insert test\<close>

definition is_commit :: "event \<Rightarrow> bool" where
  "is_commit e = (case e of Commit c \<Rightarrow> True | _ \<Rightarrow> False)"

text \<open>The bulk-insert branch of \<open>run_query\<close> is entered for these calls.\<close>

definition bulk_insert_call :: "string \<Rightarrow> pyval list option \<Rightarrow> bool" where
  "bulk_insert_call q params =
     (query_type_of q = Inr ''insert'' \<and> str_in ''values'' (str_lower q)
      \<and> (case params of None \<Rightarrow> False | Some ps \<Rightarrow> ps \<noteq> [] \<and> 10 < length ps))"

section \<open>Escaping of single quotes\<close>

lemma escape_from_positions:
  "escape_from w (if pre = [] then None else Some (last pre)) cs =
     concat (map (escaped_at w (pre @ cs)) [length pre..<length pre + length cs])"
proof (induction cs arbitrary: pre)
  case Nil
  show ?case by simp
next
  case (Cons c cs)
  have step: "escape_from w (Some c) cs =
      concat (map (escaped_at w ((pre @ [c]) @ cs)) [length (pre @ [c])..<length (pre @ [c]) + length cs])"
    using Cons.IH [of "pre @ [c]"] by simp
  have head: "(if c = quote
         \<and> (case (if pre = [] then None else Some (last pre)) of None \<Rightarrow> False | Some p \<Rightarrow> w p)
         \<and> (case cs of [] \<Rightarrow> False | d # ds \<Rightarrow> w d)
      then [quote, quote] else [c]) = escaped_at w (pre @ c # cs) (length pre)"
  proof (cases pre rule: rev_cases)
    case Nil
    then show ?thesis by (simp add: escaped_at_def quote_between_words_def)
  next
    case (snoc ys y)
    show ?thesis
    proof (cases cs)
      case Nil
      then show ?thesis
        unfolding snoc by (simp add: escaped_at_def quote_between_words_def nth_append)
    next
      case (Cons d ds)
      then show ?thesis
        unfolding snoc by (simp add: escaped_at_def quote_between_words_def nth_append)
    qed
  qed
  have range: "[length pre..<length pre + length (c # cs)] =
      length pre # [Suc (length pre)..<Suc (length pre) + length cs]"
    by (subst upt_rec) simp
  show ?case
    unfolding escape_from.simps head range using step by simp
qed


section \<open>Running the model\<close>

lemma str_nat_small: "n < 10 \<Longrightarrow> str_nat n = [digit_char n]"
  by (subst str_nat.simps) simp

lemma str_nat_large: "10 \<le> n \<Longrightarrow> str_nat n = str_nat (n div 10) @ [digit_char (n mod 10)]"
  by (subst str_nat.simps) simp

lemmas loops = str_nat_small str_nat_large

section \<open>The prepared-statement registry across a reconnect\<close>

text \<open>
  C1. The claim: after \<open>reconnect\<close> the registry of prepared statements is empty, so a
  statement prepared before a forced reconnect is prepared again on its first use afterwards.
  The code at a concrete input: a query is run as a prepared statement (\<open>PREPARE\<close>, then
  \<open>EXECUTE\<close> on connection 0), the connection is lost, and the same query is run again. The
  second call reconnects (connection 1) and sends \<open>EXECUTE\<close> only: \<open>reconnect\<close> has left
  the name in the registry, and no \<open>PREPARE\<close> reaches the new connection.
\<close>

theorem C1_reconnect_keeps_stale_registry:
  "prepared_statements
     (snd (reconnect calm_world (live_connector\<lparr>prepared_statements := {''stmt_7''}\<rparr>)))
     = {''stmt_7''}
   \<and> fst (reconnect calm_world (live_connector\<lparr>prepared_statements := {''stmt_7''}\<rparr>)) = None
   \<and> trace (snd (run_query calm_world ''SELECT %s'' FetchOne 3 (Some [PInt 1]) True
        (connection_lost
           (snd (run_query calm_world ''SELECT %s'' FetchOne 3 (Some [PInt 1]) True live_connector)))))
     = [Execute 0 ''PREPARE stmt_7 AS SELECT %s'' None,
        Execute 0 ''EXECUTE stmt_7($1)'' (Some [PInt 1]), Commit 0,
        Terminate 0, OcLogin, ConnectEx 30000, Spawn 1 30000, Sleep 3, Connect 1, CloseAll 0,
        NewPool 1,
        Execute 1 ''EXECUTE stmt_7($1)'' (Some [PInt 1]), Commit 1]"
  by (simp add: run loops eval_nat_numeral)

section \<open>Deactivation\<close>

text \<open>
  C2, as stated, fails: when closing the pool raises, \<open>__exit__\<close> ends there. The connection
  is not closed and the tunnel process is not terminated.
\<close>

theorem C2_exit_stops_at_first_failure:
  "fst (exit_connector (calm_world\<lparr>w_closeall := (\<lambda>k. Some (OtherError ''pool''))\<rparr>) live_connector)
     = Some (OtherError ''pool'')
   \<and> trace (snd (exit_connector (calm_world\<lparr>w_closeall := (\<lambda>k. Some (OtherError ''pool''))\<rparr>)
                    live_connector))
     = [CloseAll 0]"
  by (simp add: run)

section \<open>Batch insert\<close>

text \<open>
  C3. The claim: each chunk is executed as one multi-row INSERT statement against the named
  table and columns. The code at a concrete input: three rows in chunks of two give two
  statements, each followed by a commit, but the text sent begins with \<open>@\<close>; by the
  connector's own classification (\<open>query_type_of\<close>) it is not an \<open>insert\<close> statement.
\<close>

theorem C3_batch_statement_is_not_insert:
  "batch_insert_query ''users'' [''id'', ''name'']
     = ''@INSERT INTO users (id, name) VALUES (%s, %s)''
   \<and> query_type_of (batch_insert_query ''users'' [''id'', ''name'']) = Inr ''@insert''
   \<and> trace (snd (batch_insert calm_world ''users'' [''id'', ''name'']
                    [PTuple [PInt 1, PStr ''a''], PTuple [PInt 2, PStr ''b''],
                     PTuple [PInt 3, PStr ''c'']] 2 live_connector))
     = [ExecuteMany 0 ''@INSERT INTO users (id, name) VALUES (%s, %s)''
          [PTuple [PInt 1, PStr ''a''], PTuple [PInt 2, PStr ''b'']],
        Commit 0,
        ExecuteMany 0 ''@INSERT INTO users (id, name) VALUES (%s, %s)''
          [PTuple [PInt 3, PStr ''c'']],
        Commit 0]"
  by (simp add: run batch_loop.simps)

section \<open>The retry loop\<close>

text \<open>
  C4, as stated, fails: the message of the final error gives the number of attempts and
  not the statement.
\<close>

theorem C4_message_omits_statement:
  "fst (run_query (calm_world\<lparr>w_execute := (\<lambda>k. Inl OperationalError)\<rparr>)
          ''SELECT 1'' FetchOne 2 None False live_connector)
     = Inl (PyException ''Failed to execute query after 2 attempts.'')
   \<and> \<not> str_in ''SELECT 1'' ''Failed to execute query after 2 attempts.''"
  by (simp add: run loops retry_loop.simps eval_nat_numeral)

section \<open>The bulk-insert branch\<close>


section \<open>Commits of \<open>run_query\<close>\<close>


section \<open>Setting up the tunnel\<close>



section \<open>Failure of a prepared statement\<close>

lemma execute_step_trace:
  "prefix (trace s) (trace (snd (execute_step w c name params fetch s)))"
  by (simp add: execute_step_def cursor_execute_def connection_commit_def emit_def tick_def
        logger_def Let_def split: option.split sum.split prod.split)

lemma execute_step_connection:
  "connection (snd (execute_step w c name params fetch s)) = connection s"
  by (simp add: execute_step_def cursor_execute_def connection_commit_def emit_def tick_def
        logger_def Let_def split: option.split sum.split prod.split)

lemma prepare_step_new:
  "name \<notin> prepared_statements s \<Longrightarrow>
   trace (snd (prepare_step w c name q s))
     = trace s @ [Execute c (''PREPARE '' @ name @ '' AS '' @ q) None]"
  by (simp add: prepare_step_def cursor_execute_def emit_def tick_def split: sum.split)

lemma prepare_step_connection:
  "connection (snd (prepare_step w c name q s)) = connection s"
  by (simp add: prepare_step_def cursor_execute_def emit_def tick_def split: sum.split)

lemma prepared_body_connection:
  "connection (snd (prepared_body w c name q params fetch s)) = connection s"
proof (cases "prepare_step w c name q s")
  case (Pair r s1)
  have "connection s1 = connection s"
    using prepare_step_connection [of w c name q s] Pair by simp
  then show ?thesis
    using Pair by (cases r) (simp_all add: prepared_body_def execute_step_connection)
qed

lemma prepared_body_new:
  assumes "name \<notin> prepared_statements s"
  shows "prefix (trace s @ [Execute c (''PREPARE '' @ name @ '' AS '' @ q) None])
           (trace (snd (prepared_body w c name q params fetch s)))"
proof (cases "prepare_step w c name q s")
  case (Pair r s1)
  have t: "trace s1 = trace s @ [Execute c (''PREPARE '' @ name @ '' AS '' @ q) None]"
    using prepare_step_new [OF assms, of w c q] Pair by simp
  show ?thesis
    using execute_step_trace [of s1 w c name params fetch] Pair t
    by (cases r) (simp_all add: prepared_body_def)
qed

lemma first_new_event:
  assumes "prefix (xs @ [e]) ys" and "prefix ys zs"
  shows "take 1 (drop (length xs) zs) = [e]"
proof -
  have "prefix (xs @ [e]) zs" using assms by (rule prefix_order.trans)
  then obtain r where "zs = (xs @ [e]) @ r" by (auto simp: prefix_def)
  then show ?thesis by simp
qed

lemma execute_prepared_statement_trace:
  "connection s = Some c \<Longrightarrow>
   prefix (trace (snd (prepared_body w c name q params fetch s)))
          (trace (snd (execute_prepared_statement w name q params fetch s)))"
  using prepared_body_connection [of w c name q params fetch s]
  by (simp add: execute_prepared_statement_def connection_rollback_def emit_def logger_def
        Let_def split: prod.split sum.split option.split)

lemma execute_prepared_statement_prepares:
  assumes "connection s = Some c" and "name \<notin> prepared_statements s"
  shows "take 1 (drop (length (trace s))
                  (trace (snd (execute_prepared_statement w name q params fetch s))))
         = [Execute c (''PREPARE '' @ name @ '' AS '' @ q) None]"
  by (rule first_new_event [OF prepared_body_new [OF assms(2)]
        execute_prepared_statement_trace [OF assms(1)]])
lemma execute_prepared_statement_failure:
  assumes "connection s = Some c"
      and "execute_prepared_statement w name q params fetch s = (Inl e, s1)"
  shows "name \<notin> prepared_statements s1 \<and> connection s1 = Some c
         \<and> trace s1 \<noteq> [] \<and> last (trace s1) = Rollback c"
proof -
  obtain r s0 where b: "prepared_body w c name q params fetch s = (r, s0)"
    by (cases "prepared_body w c name q params fetch s")
  have c0: "connection s0 = Some c"
    using prepared_body_connection [of w c name q params fetch s] b assms(1) by simp
  show ?thesis
    using assms b c0
    by (cases r)
       (simp_all add: execute_prepared_statement_def connection_rollback_def emit_def logger_def
          Let_def, auto)
qed




section \<open>The transaction block\<close>



text \<open>
  C2, amended. \<open>__exit__\<close> runs the steps pool, connection, tunnel in this order. A step
  whose resource is absent (for the tunnel: also in CI mode) is skipped and does not stop
  the others. The first step that raises ends the method with its exception; the steps
  after it are not run. When no step raises, every resource present is cleaned up.
\<close>

theorem C2_exit_runs_steps_until_one_raises:
  "fst (exit_connector w s)
     = (case pool_failure w s of
          Some e \<Rightarrow> Some e
        | None \<Rightarrow> (case connection_failure w s of
                     Some e \<Rightarrow> Some e
                   | None \<Rightarrow> tunnel_failure w s))
   \<and> trace (snd (exit_connector w s))
     = trace s @ pool_events s
       @ (case pool_failure w s of
            Some e \<Rightarrow> []
          | None \<Rightarrow> connection_events s
                    @ (case connection_failure w s of
                         Some e \<Rightarrow> []
                       | None \<Rightarrow> tunnel_events s))"
  by (simp add: exit_connector_def exit_pool_def exit_connection_def exit_tunnel_def
        then_run_def pool_closeall_def connection_close_def process_terminate_def
        emit_def tick_def logger_def Let_def
        pool_events_def connection_events_def tunnel_events_def
        pool_failure_def connection_failure_def tunnel_failure_def
        split: option.split)

section \<open>Forwarding attempts that never stabilise\<close>

lemma get_random_available_port_free:
  assumes "w_connect_ex w (calls s KConnectEx) \<noteq> 0"
  shows "get_random_available_port w s =
           (Inr (randint w 30000 40000 (calls s KRandint)),
            emit (ConnectEx (randint w 30000 40000 (calls s KRandint)))
              (tick KConnectEx (tick KRandint s)))"
proof -
  have "probe_ports w (Suc 99) s =
           (Inr (randint w 30000 40000 (calls s KRandint)),
            emit (ConnectEx (randint w 30000 40000 (calls s KRandint)))
              (tick KConnectEx (tick KRandint s)))"
    unfolding probe_ports.simps Let_def using assms by (simp add: tick_def)
  then show ?thesis by (simp add: get_random_available_port_def)
qed

lemma forward_loop_step:
  assumes "w_connect_ex w (calls s KConnectEx) \<noteq> 0" and "w_poll w (calls s KPoll) \<noteq> None"
  shows "forward_loop w (Suc n) s = forward_loop w n (after_failed_attempt w s)"
proof -
  obtain y where y: "w_poll w (calls s KPoll) = Some y"
    using assms(2) by auto
  show ?thesis
    using y
    by (simp add: get_random_available_port_free [OF assms(1)] after_failed_attempt_def
          emit_def tick_def logger_def sleep_def Let_def)
qed

lemma after_failed_attempt_frame:
  "trace (after_failed_attempt w s) = trace s @ attempt_events w s 0
   \<and> calls (after_failed_attempt w s) KRandint = Suc (calls s KRandint)
   \<and> calls (after_failed_attempt w s) KSpawn = Suc (calls s KSpawn)
   \<and> retry_delay (after_failed_attempt w s) = retry_delay s
   \<and> max_retries (after_failed_attempt w s) = max_retries s"
  by (simp add: after_failed_attempt_def attempt_events_def emit_def tick_def logger_def
        sleep_def Let_def)

lemma forward_loop_never_stable:
  assumes "\<forall>k. w_connect_ex w k \<noteq> 0" and "\<forall>k. w_poll w k \<noteq> None"
  shows "fst (forward_loop w n s)
           = Inl (PyException ''Port-forwarding failed after multiple attempts.'')
         \<and> trace (snd (forward_loop w n s))
           = trace s @ concat (map (attempt_events w s) [0..<n])"
proof (induction n arbitrary: s)
  case 0
  show ?case by (simp add: logger_def)
next
  case (Suc n)
  define s' where "s' = after_failed_attempt w s"
  have s': "forward_loop w (Suc n) s = forward_loop w n s'"
      "trace s' = trace s @ attempt_events w s 0"
      "calls s' KRandint = Suc (calls s KRandint)"
      "calls s' KSpawn = Suc (calls s KSpawn)"
      "retry_delay s' = retry_delay s"
    using forward_loop_step [of w s n] assms after_failed_attempt_frame [of w s]
    by (simp_all add: s'_def)
  have shift: "attempt_events w s' i = attempt_events w s (Suc i)" for i
    using s' by (simp add: attempt_events_def)
  have range: "[0..<Suc n] = 0 # map Suc [0..<n]"
    by (simp add: upt_conv_Cons map_Suc_upt del: upt_Suc)
  show ?case
    unfolding s'(1) range using Suc.IH [of s'] s'(2) by (simp add: shift comp_def)
qed

lemma spawn_ports_append: "spawn_ports (xs @ ys) = spawn_ports xs @ spawn_ports ys"
  by (induction xs rule: spawn_ports.induct) simp_all

lemma spawn_ports_attempts:
  "spawn_ports (concat (map (attempt_events w s) is))
     = map (\<lambda>i. randint w 30000 40000 (calls s KRandint + i)) is"
  by (induction "is") (simp_all add: spawn_ports_append attempt_events_def Let_def)

lemma port_forward_postgres_after_login:
  assumes "1 \<le> max_retries s"
      and "\<forall>k. w_kube_config w k = WellFormed" and "\<forall>k. w_login w k = 0"
  shows "port_forward_postgres w s = forward_loop w (nat (max_retries s)) (after_login s)"
proof -
  obtain n where n: "nat (max_retries s) = Suc n"
    using assms(1) by (cases "nat (max_retries s)") auto
  show ?thesis
    using assms(2,3) n
    by (simp add: port_forward_postgres_def backup_kube_config_def validate_kube_config_def
          after_login_def emit_def tick_def logger_def Let_def)
qed

lemma after_login_frame:
  "trace (after_login s) = trace s @ [OcLogin]
   \<and> calls (after_login s) KRandint = calls s KRandint
   \<and> calls (after_login s) KSpawn = calls s KSpawn
   \<and> retry_delay (after_login s) = retry_delay s"
  by (simp add: after_login_def emit_def tick_def logger_def)

lemma attempt_events_after_login: "attempt_events w (after_login s) = attempt_events w s"
  by (rule ext) (simp add: attempt_events_def after_login_frame)



section \<open>What a reconnect can do\<close>

lemma extends_by_refl [simp]: "extends_by P s s"
  by (simp add: extends_by_def)

lemma extends_by_trans:
  assumes "extends_by P s s1" and "extends_by P s1 s2"
  shows "extends_by P s s2"
proof -
  obtain a where a: "trace s1 = trace s @ a" "list_all P a"
    using assms(1) by (auto simp: extends_by_def prefix_def)
  obtain b where b: "trace s2 = trace s1 @ b" "list_all P b"
    using assms(2) by (auto simp: extends_by_def prefix_def)
  show ?thesis
    using a b by (simp add: extends_by_def)
qed

lemma extends_by_mono:
  assumes "extends_by P s s'" and "\<And>e. P e \<Longrightarrow> Q e"
  shows "extends_by Q s s'"
  using assms by (auto simp: extends_by_def list_all_iff)

lemma extends_by_append:
  "extends_by P s s' \<Longrightarrow> \<exists>evs. trace s' = trace s @ evs \<and> list_all P evs"
  by (auto simp: extends_by_def prefix_def)

lemma extends_by_emit:
  "extends_by P s t \<Longrightarrow> P e \<Longrightarrow> extends_by P s (emit e t)"
  by (auto simp: extends_by_def emit_def prefix_def)

lemma extends_by_tick [simp]: "extends_by P s (tick k t) = extends_by P s t"
  by (simp add: extends_by_def tick_def)

lemma extends_by_logger [simp]: "extends_by P s (logger l m t) = extends_by P s t"
  by (simp add: extends_by_def logger_def)

lemma extends_by_sleep:
  "extends_by P s t \<Longrightarrow> P (Sleep d) \<Longrightarrow> extends_by P s (sleep d t)"
  by (simp add: sleep_def extends_by_emit)

lemma infra_simps [simp]:
  "infra (ConnectEx p)" "infra Rename" "infra OcLogin" "infra (Spawn pid p)"
  "infra (Terminate pid)" "infra (Sleep d)" "infra (Connect c)" "infra (NewPool c)"
  "infra (CloseAll c)" "infra (Close c)"
  by (simp_all add: infra_def)

lemma infra_step_refl [simp]: "infra_step s s"
  by (simp add: infra_step_def)

lemma infra_step_trans: "infra_step s s1 \<Longrightarrow> infra_step s1 s2 \<Longrightarrow> infra_step s s2"
  using extends_by_trans [of infra s s1 s2] by (simp add: infra_step_def)

lemma infra_step_emit: "infra_step s t \<Longrightarrow> infra e \<Longrightarrow> infra_step s (emit e t)"
  using extends_by_emit [of infra s t e] by (simp add: infra_step_def) (simp add: emit_def)

lemma infra_step_tick [simp]: "k \<noteq> KExecute \<Longrightarrow> infra_step s (tick k t) = infra_step s t"
  by (simp add: infra_step_def) (simp add: tick_def)

lemma infra_step_logger [simp]: "infra_step s (logger l m t) = infra_step s t"
  by (simp add: infra_step_def) (simp add: logger_def)

lemma infra_step_sleep: "infra_step s t \<Longrightarrow> infra_step s (sleep d t)"
  by (simp add: sleep_def infra_step_emit)

lemma infra_step_fields [simp]:
  "infra_step s (t\<lparr>local_port := p\<rparr>) = infra_step s t"
  "infra_step s (t\<lparr>port_forward_process := pp\<rparr>) = infra_step s t"
  "infra_step s (t\<lparr>connection := c\<rparr>) = infra_step s t"
  "infra_step s (t\<lparr>connection_pool := cp\<rparr>) = infra_step s t"
  "infra_step s (t\<lparr>conns := cs\<rparr>) = infra_step s t"
  by (simp_all add: infra_step_def extends_by_def)

lemma probe_ports_infra: "infra_step s (snd (probe_ports w n s))"
proof (induction n arbitrary: s)
  case 0
  show ?case by simp
next
  case (Suc n)
  let ?s2 = "emit (ConnectEx (randint w 30000 40000 (calls s KRandint)))
               (tick KConnectEx (tick KRandint s))"
  have one: "infra_step s ?s2"
    by (simp add: infra_step_emit)
  show ?case
    using one infra_step_trans [OF one Suc.IH [of ?s2]]
    by (simp add: Let_def)
qed

lemma get_random_available_port_infra:
  "infra_step s (snd (get_random_available_port w s))"
  by (simp add: get_random_available_port_def probe_ports_infra)

lemma validate_kube_config_infra: "infra_step s (snd (validate_kube_config w s))"
  by (simp add: validate_kube_config_def Let_def split: kube_config.split)

lemma backup_kube_config_infra: "infra_step s (backup_kube_config w s)"
  by (simp add: backup_kube_config_def validate_kube_config_def infra_step_emit Let_def
        split: kube_config.split)

lemma login_loop_infra: "infra_step s (snd (login_loop w n s))"
proof (induction n arbitrary: s)
  case 0
  show ?case by simp
next
  case (Suc n)
  let ?s1 = "emit OcLogin (logger INFO ''Logging in to OpenShift server'' s)"
  let ?s2 = "tick KLogin ?s1"
  obtain valid s3 where v:
    "(if w_login w (calls ?s1 KLogin) = 0 then validate_kube_config w ?s2 else (False, ?s2))
       = (valid, s3)"
    by (cases "if w_login w (calls ?s1 KLogin) = 0 then validate_kube_config w ?s2 else (False, ?s2)")
  have e2: "infra_step s ?s2"
    by (simp add: infra_step_emit)
  have e3: "infra_step s s3"
  proof (cases "w_login w (calls ?s1 KLogin) = 0")
    case True
    then have "s3 = snd (validate_kube_config w ?s2)" using v by simp
    then show ?thesis
      using infra_step_trans [OF e2 validate_kube_config_infra [of ?s2 w]] by simp
  next
    case False
    then have "s3 = ?s2" using v by simp
    then show ?thesis using e2 by simp
  qed
  show ?case
  proof (cases valid)
    case True
    then show ?thesis using v e3 by (simp add: Let_def)
  next
    case False
    let ?s4 = "sleep (retry_delay s3) (logger WARNING ''Login attempt failed'' s3)"
    have e4: "infra_step s ?s4"
      using e3 by (simp add: infra_step_sleep)
    show ?thesis
      using False v infra_step_trans [OF e4 Suc.IH [of ?s4]] by (simp add: Let_def)
  qed
qed

lemma forward_loop_infra: "infra_step s (snd (forward_loop w n s))"
proof (induction n arbitrary: s)
  case 0
  show ?case by simp
next
  case (Suc n)
  obtain r s1 where g: "get_random_available_port w s = (r, s1)"
    by (cases "get_random_available_port w s")
  have e1: "infra_step s s1"
    using get_random_available_port_infra [of s w] g by simp
  show ?case
  proof (cases r)
    case (Inl e)
    then show ?thesis using g e1 by simp
  next
    case (Inr port)
    let ?s2 = "logger INFO ''Starting port-forward'' (s1\<lparr>local_port := port\<rparr>)"
    let ?s3 = "sleep 3 (emit (Spawn (calls ?s2 KSpawn) port) (tick KSpawn ?s2))"
    let ?s4 = "tick KPoll ?s3"
    let ?s5 = "sleep (retry_delay ?s4)
                 (emit (Terminate (calls ?s2 KSpawn))
                    (logger WARNING ''Port-forwarding failed. Retrying with a different port.'' ?s4))"
    have e2: "infra_step s (s1\<lparr>local_port := port\<rparr>)"
      using e1 by simp
    have e4: "infra_step s ?s4"
      using e2 by (simp add: infra_step_sleep infra_step_emit)
    have e5: "infra_step s ?s5"
      using e4 by (simp add: infra_step_sleep infra_step_emit)
    show ?thesis
    proof (cases "w_poll w (calls ?s3 KPoll)")
      case None
      then show ?thesis using g Inr e4 by (simp add: Let_def)
    next
      case (Some y)
      then show ?thesis
        using g Inr infra_step_trans [OF e5 Suc.IH [of ?s5]] by (simp add: Let_def)
    qed
  qed
qed

lemma port_forward_postgres_infra: "infra_step s (snd (port_forward_postgres w s))"
proof -
  let ?s1 = "backup_kube_config w s"
  obtain ok s2 where l: "login_loop w (nat (max_retries ?s1)) ?s1 = (ok, s2)"
    by (cases "login_loop w (nat (max_retries ?s1)) ?s1")
  have e2: "infra_step s s2"
    using infra_step_trans [OF backup_kube_config_infra [of s w]
        login_loop_infra [of ?s1 w "nat (max_retries ?s1)"]] l by simp
  show ?thesis
  proof (cases ok)
    case True
    then show ?thesis
      using l infra_step_trans [OF e2 forward_loop_infra [of s2 w "nat (max_retries s2)"]]
      by (simp add: port_forward_postgres_def Let_def)
  next
    case False
    then show ?thesis
      using l e2 by (simp add: port_forward_postgres_def Let_def)
  qed
qed

lemma then_run_infra:
  assumes "infra_step s (snd r)" and "\<And>t. infra_step t (snd (f t))"
  shows "infra_step s (snd (then_run r f))"
proof (cases r)
  case (Pair x t)
  show ?thesis
  proof (cases x)
    case None
    then show ?thesis
      using Pair assms(1) infra_step_trans [OF _ assms(2) [of t], of s]
      by (simp add: then_run_def)
  next
    case (Some e)
    then show ?thesis using Pair assms(1) by (simp add: then_run_def)
  qed
qed

lemma process_terminate_infra: "infra_step s (snd (process_terminate w pid s))"
  by (simp add: process_terminate_def infra_step_emit)

lemma pool_closeall_infra: "infra_step s (snd (pool_closeall w p s))"
  by (simp add: pool_closeall_def infra_step_emit)

lemma create_connection_pool_infra: "infra_step s (snd (create_connection_pool w s))"
  by (simp add: create_connection_pool_def infra_step_emit Let_def split: option.split)

lemma connect_to_postgres_infra: "infra_step s (snd (connect_to_postgres w s))"
  by (simp add: connect_to_postgres_def infra_step_emit Let_def split: option.split)

lemma reconnect_stop_tunnel_infra: "infra_step s (snd (reconnect_stop_tunnel w s))"
  by (simp add: reconnect_stop_tunnel_def then_run_infra process_terminate_infra
        split: option.split)

lemma reconnect_start_tunnel_infra: "infra_step s (snd (reconnect_start_tunnel w s))"
  using port_forward_postgres_infra [of s w]
  by (auto simp: reconnect_start_tunnel_def split: prod.split sum.split)

lemma reconnect_open_infra: "infra_step s (snd (reconnect_open w s))"
  using connect_to_postgres_infra [of s w]
  by (auto simp: reconnect_open_def split: prod.split sum.split)

lemma reconnect_pool_infra: "infra_step s (snd (reconnect_pool w s))"
  by (simp add: reconnect_pool_def then_run_infra pool_closeall_infra
        create_connection_pool_infra split: option.split)

lemma reconnect_infra: "infra_step s (snd (reconnect w s))"
  unfolding reconnect_def
  by (intro then_run_infra reconnect_start_tunnel_infra reconnect_open_infra
        reconnect_pool_infra)
     (simp_all add: infra_step_trans [OF _ reconnect_stop_tunnel_infra])

section \<open>One commit on the standard path\<close>

lemma infra_no_commit: "infra e \<Longrightarrow> \<not> is_commit e"
  by (cases e) (simp_all add: infra_def is_commit_def)

lemma extends_by_log_slow_query [simp]:
  "extends_by P s (log_slow_query qt t) = extends_by P s t"
  by (simp add: log_slow_query_def Let_def)

lemma extends_by_fields [simp]:
  "extends_by P s (t\<lparr>prepared_statements := ps\<rparr>) = extends_by P s t"
  "extends_by P s (t\<lparr>connection := c\<rparr>) = extends_by P s t"
  "extends_by P s (t\<lparr>conns := cs\<rparr>) = extends_by P s t"
  by (simp_all add: extends_by_def)

lemma reconnect_no_commit: "extends_by (\<lambda>e. \<not> is_commit e) s (snd (reconnect w s))"
  using reconnect_infra [of s w] extends_by_mono [of infra s _ "\<lambda>e. \<not> is_commit e"]
  by (simp add: infra_step_def infra_no_commit)

lemma after_transient_no_commit:
  "extends_by (\<lambda>e. \<not> is_commit e) s (snd (after_transient w m a cur e s))"
proof (cases "connection s")
  case None
  then show ?thesis by (simp add: after_transient_def)
next
  case (Some conn)
  let ?s2 = "sleep (1 / 5 * 2 ^ a) (logger WARNING ''Attempt failed'' (connection_rollback conn s))"
  have e2: "extends_by (\<lambda>e. \<not> is_commit e) s ?s2"
    by (simp add: extends_by_sleep connection_rollback_def extends_by_emit is_commit_def)
  have e3: "extends_by (\<lambda>e. \<not> is_commit e) s (snd (reconnect w ?s2))"
    by (rule extends_by_trans [OF e2 reconnect_no_commit])
  show ?thesis
    using Some e2 e3
    by (simp add: after_transient_def Let_def split: prod.split option.split) auto
qed

lemma retry_loop_no_commit:
  "extends_by (\<lambda>e. \<not> is_commit e) s (snd (retry_loop w q ps qt m a cur s))"
proof (induction "nat (m - int a)" arbitrary: a cur s)
  case 0
  then have "m \<le> int a" by simp
  then show ?case by (subst retry_loop.simps) simp
next
  case (Suc n)
  then have go: "\<not> m \<le> int a" and n: "n = nat (m - int (Suc a))" by simp_all
  let ?s1 = "emit (Execute cur q ps) (tick KExecute s)"
  have e1: "extends_by (\<lambda>e. \<not> is_commit e) s ?s1"
    by (simp add: extends_by_emit is_commit_def)
  show ?case
  proof (cases "w_execute w (calls s KExecute)")
    case (Inr cr)
    then show ?thesis
      using go e1 by (subst retry_loop.simps) (simp add: cursor_execute_def Let_def)
  next
    case (Inl e)
    show ?thesis
    proof (cases "is_transient e")
      case False
      then show ?thesis
        using go e1 Inl by (subst retry_loop.simps) (simp add: cursor_execute_def Let_def)
    next
      case True
      obtain r s3 where at: "after_transient w m a cur e ?s1 = (r, s3)"
        by (cases "after_transient w m a cur e ?s1")
      have e3: "extends_by (\<lambda>e. \<not> is_commit e) s s3"
        using extends_by_trans [OF e1 after_transient_no_commit [of ?s1 w m a cur e]] at by simp
      show ?thesis
      proof (cases r)
        case (Inl e')
        then show ?thesis
          using go \<open>w_execute w (calls s KExecute) = Inl e\<close> True at e3
          by (subst retry_loop.simps) (simp add: cursor_execute_def Let_def)
      next
        case (Inr cur')
        have "extends_by (\<lambda>e. \<not> is_commit e) s (snd (retry_loop w q ps qt m (Suc a) cur' s3))"
          by (rule extends_by_trans [OF e3 Suc.hyps(1) [OF n]])
        then show ?thesis
          using go \<open>w_execute w (calls s KExecute) = Inl e\<close> True at Inr
          by (subst retry_loop.simps) (simp add: cursor_execute_def Let_def)
      qed
    qed
  qed
qed

lemma retry_loop_result:
  "fst (retry_loop w q ps qt m a cur s) = Inr cr \<Longrightarrow> \<exists>k. w_execute w k = Inr cr"
proof (induction "nat (m - int a)" arbitrary: a cur s)
  case 0
  then have "m \<le> int a" by simp
  then show ?case using "0.prems" by (subst (asm) retry_loop.simps) simp
next
  case (Suc n)
  then have go: "\<not> m \<le> int a" and n: "n = nat (m - int (Suc a))" by simp_all
  let ?s1 = "emit (Execute cur q ps) (tick KExecute s)"
  show ?case
  proof (cases "w_execute w (calls s KExecute)")
    case (Inr cr')
    then have "cr' = cr"
      using go Suc.prems by (subst (asm) retry_loop.simps) (simp add: cursor_execute_def Let_def)
    then show ?thesis using Inr by blast
  next
    case (Inl e)
    obtain r s3 where at: "after_transient w m a cur e ?s1 = (r, s3)"
      by (cases "after_transient w m a cur e ?s1")
    have t: "is_transient e"
      using go Suc.prems Inl
      by (subst (asm) retry_loop.simps) (auto simp: cursor_execute_def Let_def split: if_splits)
    obtain cur' where r: "r = Inr cur'"
      using go Suc.prems Inl t at
      by (subst (asm) retry_loop.simps) (cases r; simp add: cursor_execute_def Let_def)
    have "fst (retry_loop w q ps qt m (Suc a) cur' s3) = Inr cr"
      using go Suc.prems Inl t at r
      by (subst (asm) retry_loop.simps) (simp add: cursor_execute_def Let_def)
    then show ?thesis by (rule Suc.hyps(1) [OF n])
  qed
qed

lemma run_escaped_standard:
  assumes "\<not> bulk_insert_call q params" and "\<not> (use_prepared \<and> params \<noteq> None)"
      and "query_type_of q = Inr qt"
  shows "run_escaped w q fetch m params use_prepared s
           = standard_execution w q qt fetch m params s"
  using assms
  by (auto simp: run_escaped_def bulk_insert_call_def split: option.splits)

lemma no_commit_then_one:
  assumes "extends_by (\<lambda>e. \<not> is_commit e) s t" and "trace t' = trace t @ [Commit c]"
  shows "filter is_commit (drop (length (trace s)) (trace t')) = [Commit c]"
proof -
  obtain evs where evs: "trace t = trace s @ evs" "list_all (\<lambda>e. \<not> is_commit e) evs"
    using extends_by_append [OF assms(1)] by blast
  have "filter is_commit evs = []"
    using evs(2) by (simp add: list_all_iff)
  then show ?thesis
    using evs(1) assms(2) by (simp add: is_commit_def)
qed

lemma standard_execution_commits:
  assumes "standard_execution w q qt fetch m params s = (Inr r, s')"
      and "qt = ''delete'' \<or> qt = ''insert'' \<or> qt = ''update''
           \<or> (\<forall>k cr. w_execute w k = Inr cr \<longrightarrow> no_description cr)"
      and "extends_by (\<lambda>e. \<not> is_commit e) s0 s"
  shows "r = RNone \<and> (\<exists>c. filter is_commit (drop (length (trace s0)) (trace s')) = [Commit c])"
proof -
  obtain cur where cur: "connection s = Some cur"
    using assms(1) by (cases "connection s") (simp_all add: standard_execution_def)
  obtain x s2 where l: "retry_loop w q params qt m 0 cur s = (x, s2)"
    by (cases "retry_loop w q params qt m 0 cur s")
  obtain cr where cr: "x = Inr cr"
    using assms(1) cur l by (cases x) (simp_all add: standard_execution_def)
  have nd: "qt = ''delete'' \<or> qt = ''insert'' \<or> qt = ''update'' \<or> no_description cr"
    using assms(2) retry_loop_result [of w q params qt m 0 cur s cr] l cr by auto
  obtain conn where conn: "connection s2 = Some conn"
    using assms(1) cur l cr nd
    by (cases "connection s2") (auto simp: standard_execution_def)
  have c: "connection_commit w conn s2 = (None, s') \<and> r = RNone"
    using assms(1) cur l cr nd conn
    by (auto simp: standard_execution_def split: prod.splits option.splits)
  have t: "trace s' = trace s2 @ [Commit conn]"
    using c by (auto simp: connection_commit_def emit_def tick_def)
  have e2: "extends_by (\<lambda>e. \<not> is_commit e) s0 s2"
    using extends_by_trans [OF assms(3) retry_loop_no_commit [of s w q params qt m 0 cur]] l
    by simp
  show ?thesis
    using c no_commit_then_one [OF e2 t] by blast
qed



section \<open>The bulk-insert branch, in general\<close>

lemma extends_by_prefix: "extends_by P s t \<Longrightarrow> prefix (trace s) (trace t)"
  by (simp add: extends_by_def)

lemma retry_loop_first_call:
  assumes "\<not> m \<le> int a"
  shows "prefix (trace s @ [Execute cur q ps]) (trace (snd (retry_loop w q ps qt m a cur s)))"
proof -
  let ?s1 = "emit (Execute cur q ps) (tick KExecute s)"
  have t1: "trace ?s1 = trace s @ [Execute cur q ps]"
    by (simp add: emit_def tick_def)
  show ?thesis
  proof (cases "w_execute w (calls s KExecute)")
    case (Inr cr)
    then show ?thesis
      using assms t1
      by (subst retry_loop.simps)
         (simp add: cursor_execute_def Let_def log_slow_query_def logger_def)
  next
    case (Inl e)
    obtain r s3 where at: "after_transient w m a cur e ?s1 = (r, s3)"
      by (cases "after_transient w m a cur e ?s1")
    have p3: "prefix (trace ?s1) (trace s3)"
      using extends_by_prefix [OF after_transient_no_commit [of ?s1 w m a cur e]] at by simp
    have p4: "prefix (trace ?s1) (trace (snd (retry_loop w q ps qt m (Suc a) cur' s3)))" for cur'
      using p3 extends_by_prefix [OF retry_loop_no_commit [of s3 w q ps qt m "Suc a" cur']]
      by (rule prefix_order.trans)
    show ?thesis
      using assms Inl at p3 p4 t1
      by (subst retry_loop.simps) (cases r; simp add: cursor_execute_def Let_def)
  qed
qed

lemma standard_execution_first_call:
  assumes "connection s = Some c" and "0 < m"
  shows "prefix (trace s @ [Execute c q ps])
           (trace (snd (standard_execution w q qt fetch m ps s)))"
proof -
  obtain x s2 where l: "retry_loop w q ps qt m 0 c s = (x, s2)"
    by (cases "retry_loop w q ps qt m 0 c s")
  have p2: "prefix (trace s @ [Execute c q ps]) (trace s2)"
    using retry_loop_first_call [of m 0 s c q ps w qt] assms(2) l by simp
  have p3: "prefix (trace s @ [Execute c q ps]) (trace t)"
    if "connection_commit w conn s2 = (y, t)" for conn y t
  proof -
    have "trace t = trace s2 @ [Commit conn]"
      using that by (auto simp: connection_commit_def emit_def tick_def)
    then show ?thesis using p2 by simp
  qed
  show ?thesis
    using assms(1) l p2
    by (cases x) (auto simp: standard_execution_def split: option.split prod.split intro: p3)
qed

lemma batch_loop_trace:
  "prefix (trace s) (trace (snd (batch_loop w c q vs b i s)))"
proof (induction "length vs - i" arbitrary: i s rule: less_induct)
  case less
  show ?case
  proof (cases "b = 0 \<or> length vs \<le> i")
    case True
    then show ?thesis by (subst batch_loop.simps) simp
  next
    case False
    let ?s1 = "emit (ExecuteMany c q (take b (drop i vs))) (tick KExecute s)"
    have p1: "prefix (trace s) (trace ?s1)"
      by (simp add: emit_def tick_def)
    have p2: "prefix (trace s) (trace (snd (batch_loop w c q vs b (i + b) t)))"
      if "prefix (trace s) (trace t)" for t
      using less.hyps [of "i + b" t] False that by (auto intro: prefix_order.trans)
    have p3: "prefix (trace s) (trace (snd (batch_loop w c q vs b (i + b) t)))"
      if "connection_commit w conn ?s1 = (y, t)" for conn y t
    proof -
      have "trace t = trace ?s1 @ [Commit conn]"
        using that by (auto simp: connection_commit_def emit_def tick_def)
      then have "prefix (trace s) (trace t)" by (simp add: emit_def tick_def)
      then show ?thesis by (rule p2)
    qed
    have p4: "prefix (trace s) (trace t)"
      if "connection_commit w conn ?s1 = (y, t)" for conn y t
      using that by (auto simp: connection_commit_def emit_def tick_def)
    show ?thesis
      using False p1
      by (subst batch_loop.simps)
         (auto simp: cursor_executemany_def split: sum.split option.split prod.split
            intro: p3 p4)
  qed
qed

lemma batch_loop_first_call:
  assumes "0 < b" and "i < length vs"
  shows "prefix (trace s @ [ExecuteMany c q (take b (drop i vs))])
           (trace (snd (batch_loop w c q vs b i s)))"
proof -
  let ?s1 = "emit (ExecuteMany c q (take b (drop i vs))) (tick KExecute s)"
  have t1: "trace ?s1 = trace s @ [ExecuteMany c q (take b (drop i vs))]"
    by (simp add: emit_def tick_def)
  have p3: "prefix (trace ?s1) (trace (snd (batch_loop w c q vs b (i + b) t)))"
    if "connection_commit w conn ?s1 = (y, t)" for conn y t
  proof -
    have "trace t = trace ?s1 @ [Commit conn]"
      using that by (auto simp: connection_commit_def emit_def tick_def)
    then have "prefix (trace ?s1) (trace t)" by simp
    then show ?thesis
      using batch_loop_trace [of t w c q vs b "i + b"] by (rule prefix_order.trans)
  qed
  have p4: "prefix (trace ?s1) (trace t)"
    if "connection_commit w conn ?s1 = (y, t)" for conn y t
    using that by (auto simp: connection_commit_def emit_def tick_def)
  have "prefix (trace ?s1) (trace (snd (batch_loop w c q vs b i s)))"
    using assms
    by (subst batch_loop.simps)
       (auto simp: cursor_executemany_def split: sum.split option.split prod.split
          intro: p3 p4)
  then show ?thesis by (simp only: t1)
qed

lemma batch_insert_first_call:
  assumes "connection s = Some c" and "vs \<noteq> []"
  shows "prefix (trace s @ [ExecuteMany c (batch_insert_query t cols) (take 1000 vs)])
           (trace (snd (batch_insert w t cols vs 1000 s)))"
proof -
  let ?q = "batch_insert_query t cols"
  obtain y s1 where l: "batch_loop w c ?q vs 1000 0 s = (y, s1)"
    by (cases "batch_loop w c ?q vs 1000 0 s")
  have p1: "prefix (trace s @ [ExecuteMany c ?q (take 1000 vs)]) (trace s1)"
    using batch_loop_first_call [of 1000 0 vs s c ?q w] assms(2) l by simp
  show ?thesis
    using assms l p1
    by (auto simp: batch_insert_def connection_rollback_def emit_def logger_def
          split: option.split)
qed

lemma prepared_body_trace:
  "prefix (trace s) (trace (snd (prepared_body w c name q params fetch s)))"
proof (cases "prepare_step w c name q s")
  case (Pair r s1)
  have p1: "prefix (trace s) (trace s1)"
    using Pair
    by (auto simp: prepare_step_def cursor_execute_def emit_def tick_def
          split: if_splits sum.splits)
  show ?thesis
    using Pair p1 prefix_order.trans [OF p1 execute_step_trace [of s1 w c name params fetch]]
    by (cases r) (simp_all add: prepared_body_def)
qed

lemma execute_prepared_statement_extends:
  "prefix (trace s) (trace (snd (execute_prepared_statement w name q params fetch s)))"
proof (cases "connection s")
  case None
  then show ?thesis by (simp add: execute_prepared_statement_def)
next
  case (Some c)
  show ?thesis
    using prefix_order.trans [OF prepared_body_trace execute_prepared_statement_trace [OF Some]]
    by simp
qed

lemma standard_execution_extends:
  "prefix (trace s) (trace (snd (standard_execution w q qt fetch m ps s)))"
proof (cases "connection s")
  case None
  then show ?thesis by (simp add: standard_execution_def)
next
  case (Some c)
  obtain x s2 where l: "retry_loop w q ps qt m 0 c s = (x, s2)"
    by (cases "retry_loop w q ps qt m 0 c s")
  have p2: "prefix (trace s) (trace s2)"
    using extends_by_prefix [OF retry_loop_no_commit [of s w q ps qt m 0 c]] l by simp
  have p3: "prefix (trace s) (trace t)"
    if "connection_commit w conn s2 = (y, t)" for conn y t
  proof -
    have "trace t = trace s2 @ [Commit conn]"
      using that by (auto simp: connection_commit_def emit_def tick_def)
    then show ?thesis using p2 by simp
  qed
  show ?thesis
    using Some l p2
    by (cases x) (auto simp: standard_execution_def split: option.split prod.split intro: p3)
qed

lemma run_query_bulk:
  assumes "connection s = Some c" and "\<not> closed (conns s c)"
      and "bulk_insert_call (escape_single_quotes (w_word w) query) (Some ps)"
  shows "run_query w query fetch m (Some ps) use_prepared s
           = (case try_batch w (escape_single_quotes (w_word w) query) ps s of
                (Some r, s1) \<Rightarrow> (r, s1)
              | (None, s1) \<Rightarrow>
                  if use_prepared
                  then execute_prepared_statement w
                         (''stmt_'' @ str_int (w_hash w (escape_single_quotes (w_word w) query)))
                         (escape_single_quotes (w_word w) query) (Some ps) fetch s1
                  else standard_execution w (escape_single_quotes (w_word w) query) ''insert''
                         fetch m (Some ps) s1)"
  using assms
  by (simp add: run_query_def connection_unusable_def run_escaped_def bulk_insert_call_def
        split: prod.split option.split)



end
